theory Spec2Isabelle
  imports Complex_Main
begin

section \<open>JavaScript computations: state, exceptions, try/catch\<close>

text \<open>
  The dashboard code is event-driven JavaScript. A function of the source that reads or
  writes mutable state and may throw is a state transformer returning either the thrown
  exception (\<open>Inl\<close>) or the returned value (\<open>Inr\<close>), together with the state as it is at
  that moment. A thrown exception keeps the side effects made before it.
\<close>

datatype exn = DOMException string | TypeError string | ReferenceError string

type_synonym ('s, 'a) js = "'s \<Rightarrow> (exn + 'a) \<times> 's"

definition ret :: "'a \<Rightarrow> ('s, 'a) js" where
  "ret a = (\<lambda>s. (Inr a, s))"

definition throw :: "exn \<Rightarrow> ('s, 'a) js" where
  "throw e = (\<lambda>s. (Inl e, s))"

definition bind :: "('s, 'a) js \<Rightarrow> ('a \<Rightarrow> ('s, 'b) js) \<Rightarrow> ('s, 'b) js" where
  "bind m f = (\<lambda>s. case m s of (Inl e, s') \<Rightarrow> (Inl e, s') | (Inr a, s') \<Rightarrow> f a s')"

definition seq :: "('s, 'a) js \<Rightarrow> ('s, 'b) js \<Rightarrow> ('s, 'b) js" where
  "seq m n = bind m (\<lambda>_. n)"

definition try_catch :: "('s, 'a) js \<Rightarrow> (exn \<Rightarrow> ('s, 'a) js) \<Rightarrow> ('s, 'a) js" where
  "try_catch m h = (\<lambda>s. case m s of (Inl e, s') \<Rightarrow> h e s' | (Inr a, s') \<Rightarrow> (Inr a, s'))"

definition try_finally :: "('s, 'a) js \<Rightarrow> ('s, unit) js \<Rightarrow> ('s, 'a) js" where
  "try_finally m f = (\<lambda>s. case m s of (r, s') \<Rightarrow>
     (case f s' of (Inl e, s'') \<Rightarrow> (Inl e, s'') | (Inr _, s'') \<Rightarrow> (r, s'')))"

section \<open>The browser as the theme provider sees it\<close>

text \<open>
  \<open>localStorage\<close>, \<open>window.matchMedia\<close>, \<open>document.documentElement.classList\<close> and
  \<open>console.warn\<close> are browser interfaces, not code of the repository. The model keeps what
  theme-provider.tsx observes of them: the stored items, which storage calls throw (storage
  disabled, quota exceeded), whether the code runs in a page (\<open>windowDefined\<close>: the globals
  \<open>window\<close> and \<open>document\<close> exist), the OS colour-scheme signal, the class list of the
  document root, and the warnings written to the console. Outside a page, naming \<open>window\<close>
  or \<open>document\<close> throws a ReferenceError; only \<open>typeof window\<close> is safe there.
\<close>

datatype storage_call = GetItem string | SetItem string string | RemoveItem string

record browser =
  ls_items :: "string \<rightharpoonup> string"
  ls_throws :: "storage_call \<Rightarrow> exn option"
  windowDefined :: bool
  prefersDark :: bool
  classList :: "string list"
  console :: "string list"

definition localStorage_getItem :: "string \<Rightarrow> ('a browser_scheme, string option) js" where
  "localStorage_getItem key = (\<lambda>b. case ls_throws b (GetItem key) of
       Some e \<Rightarrow> (Inl e, b)
     | None \<Rightarrow> (Inr (ls_items b key), b))"

definition localStorage_setItem :: "string \<Rightarrow> string \<Rightarrow> ('a browser_scheme, unit) js" where
  "localStorage_setItem key v = (\<lambda>b. case ls_throws b (SetItem key v) of
       Some e \<Rightarrow> (Inl e, b)
     | None \<Rightarrow> (Inr (), b\<lparr>ls_items := (ls_items b)(key \<mapsto> v)\<rparr>))"

definition localStorage_removeItem :: "string \<Rightarrow> ('a browser_scheme, unit) js" where
  "localStorage_removeItem key = (\<lambda>b. case ls_throws b (RemoveItem key) of
       Some e \<Rightarrow> (Inl e, b)
     | None \<Rightarrow> (Inr (), b\<lparr>ls_items := (ls_items b)(key := None)\<rparr>))"

definition console_warn :: "string \<Rightarrow> ('a browser_scheme, unit) js" where
  "console_warn msg = (\<lambda>b. (Inr (), b\<lparr>console := console b @ [msg]\<rparr>))"

text \<open>\<open>window.matchMedia('(prefers-color-scheme: dark)')\<close>, read for its \<open>matches\<close>.\<close>

definition window_matchMedia :: "('a browser_scheme, bool) js" where
  "window_matchMedia = (\<lambda>b.
     if windowDefined b then (Inr (prefersDark b), b)
     else (Inl (ReferenceError ''window is not defined''), b))"

section \<open>theme-provider.tsx\<close>

subsection \<open>safeLocalStorage\<close>

definition safeLocalStorage_getItem :: "string \<Rightarrow> ('a browser_scheme, string option) js" where
  "safeLocalStorage_getItem key =
     try_catch (localStorage_getItem key)
       (\<lambda>error. seq (console_warn (''Failed to get localStorage item '' @ key @ '':''))
                     (ret None))"

definition safeLocalStorage_setItem :: "string \<Rightarrow> string \<Rightarrow> ('a browser_scheme, bool) js" where
  "safeLocalStorage_setItem key v =
     try_catch (seq (localStorage_setItem key v) (ret True))
       (\<lambda>error. seq (console_warn (''Failed to set localStorage item '' @ key @ '':''))
                     (ret False))"

definition safeLocalStorage_removeItem :: "string \<Rightarrow> ('a browser_scheme, bool) js" where
  "safeLocalStorage_removeItem key =
     try_catch (seq (localStorage_removeItem key) (ret True))
       (\<lambda>error. seq (console_warn (''Failed to remove localStorage item '' @ key @ '':''))
                     (ret False))"

subsection \<open>Types and props\<close>

text \<open>
  \<open>Theme\<close> and \<open>Radius\<close> are TypeScript unions of string literals. They exist at compile
  time only: at run time the values are strings, which is why the provider checks what it
  reads from storage and what \<open>setRadius\<close> receives. The state therefore holds strings, and
  the datatypes below are used where the TypeScript type is what restricts a value (the
  props, and the argument of \<open>setTheme\<close> at a typed call site).
\<close>

datatype Theme = Dark | Light | System

datatype Radius = R0 | R03rem | R05rem | R075rem

fun theme_str :: "Theme \<Rightarrow> string" where
  "theme_str Dark = ''dark''"
| "theme_str Light = ''light''"
| "theme_str System = ''system''"

fun radius_str :: "Radius \<Rightarrow> string" where
  "radius_str R0 = ''0''"
| "radius_str R03rem = ''0.3rem''"
| "radius_str R05rem = ''0.5rem''"
| "radius_str R075rem = ''0.75rem''"

record props =
  defaultTheme :: Theme
  defaultRadius :: Radius
  storageKey :: string
  colorStorageKey :: string
  radiusStorageKey :: string

definition default_props :: props where
  "default_props = \<lparr> defaultTheme = System, defaultRadius = R05rem,
     storageKey = ''theme'', colorStorageKey = ''color-theme'',
     radiusStorageKey = ''radius'' \<rparr>"

text \<open>The React state of \<open>ThemeProvider\<close>: three \<open>useState\<close> cells on top of the browser.\<close>

record provider = browser +
  theme :: string
  radius :: string
  resolvedTheme :: string

subsection \<open>getSystemTheme and the resolved theme\<close>

definition getSystemTheme :: "'a browser_scheme \<Rightarrow> string" where
  "getSystemTheme b =
     (if \<not> windowDefined b then ''light''
      else if prefersDark b then ''dark'' else ''light'')"

text \<open>
  The expression \<open>theme === 'system' ? getSystemTheme() : theme === 'dark' ? 'dark' : 'light'\<close>,
  written twice in the source: in the initialiser of \<open>resolvedTheme\<close> and in the apply-theme
  effect.
\<close>

definition resolve :: "string \<Rightarrow> 'a browser_scheme \<Rightarrow> string" where
  "resolve th b =
     (if th = ''system'' then getSystemTheme b
      else if th = ''dark'' then ''dark'' else ''light'')"

subsection \<open>useState initialisers\<close>

definition initialTheme :: "props \<Rightarrow> ('a browser_scheme, string) js" where
  "initialTheme p =
     bind (safeLocalStorage_getItem (storageKey p))
       (\<lambda>saved. ret (case saved of
            None \<Rightarrow> theme_str (defaultTheme p)
          | Some s \<Rightarrow> if s \<noteq> [] \<and> s \<in> set [''light'', ''dark'', ''system'']
                      then s else theme_str (defaultTheme p)))"

definition initialRadius :: "props \<Rightarrow> ('a browser_scheme, string) js" where
  "initialRadius p =
     bind (safeLocalStorage_getItem (radiusStorageKey p))
       (\<lambda>saved. ret (case saved of
            None \<Rightarrow> radius_str (defaultRadius p)
          | Some s \<Rightarrow> if s \<noteq> [] \<and> s \<in> set [''0'', ''0.3rem'', ''0.5rem'', ''0.75rem'']
                      then s else radius_str (defaultRadius p)))"

subsection \<open>Effects\<close>

text \<open>
  \<open>applyTheme\<close> reads \<open>document.documentElement\<close> without a guard, then removes both
  theme classes from its class list and adds the given one.
\<close>

definition applyTheme :: "string \<Rightarrow> ('a browser_scheme, unit) js" where
  "applyTheme themeMode = (\<lambda>b.
     if \<not> windowDefined b then (Inl (ReferenceError ''document is not defined''), b)
     else
       (let removed = filter (\<lambda>c. c \<noteq> ''light'' \<and> c \<noteq> ''dark'') (classList b);
            added = (if themeMode \<in> set removed then removed else removed @ [themeMode])
        in (Inr (), b\<lparr>classList := added\<rparr>)))"

definition setThemeState :: "string \<Rightarrow> ('a provider_scheme, unit) js" where
  "setThemeState v = (\<lambda>w. (Inr (), w\<lparr>theme := v\<rparr>))"

definition setRadiusState :: "string \<Rightarrow> ('a provider_scheme, unit) js" where
  "setRadiusState v = (\<lambda>w. (Inr (), w\<lparr>radius := v\<rparr>))"

definition setResolvedTheme :: "string \<Rightarrow> ('a provider_scheme, unit) js" where
  "setResolvedTheme v = (\<lambda>w. (Inr (), w\<lparr>resolvedTheme := v\<rparr>))"

text \<open>The effect "Apply theme on mount and theme changes" (dependencies: theme, radius).\<close>

definition applyThemeEffect :: "('a provider_scheme, unit) js" where
  "applyThemeEffect = (\<lambda>w.
     (let newResolvedTheme = resolve (theme w) w
      in seq (setResolvedTheme newResolvedTheme) (applyTheme newResolvedTheme) w))"

text \<open>The listener of the media query, called by the browser with \<open>e.matches\<close>.\<close>

definition handleChange :: "bool \<Rightarrow> ('a provider_scheme, unit) js" where
  "handleChange e_matches = (\<lambda>w.
     if theme w = ''system''
     then (let systemTheme = (if e_matches then ''dark'' else ''light'')
           in seq (setResolvedTheme systemTheme) (applyTheme systemTheme) w)
     else (Inr (), w))"

text \<open>
  The effect "Handle system theme changes" (dependencies: theme, radius): it reads
  \<open>window.matchMedia\<close> without a guard and registers \<open>handleChange\<close> on the media query.
  The registration itself is not state of the model: the event of a colour-scheme change
  calls \<open>handleChange\<close>.
\<close>

definition mediaQueryEffect :: "('a provider_scheme, unit) js" where
  "mediaQueryEffect = bind window_matchMedia (\<lambda>mediaQuery. ret ())"

text \<open>Both effects, in the order in which the component declares them.\<close>

definition runEffects :: "('a provider_scheme, unit) js" where
  "runEffects = seq mediaQueryEffect applyThemeEffect"

subsection \<open>Setters\<close>

definition setTheme :: "props \<Rightarrow> string \<Rightarrow> ('a provider_scheme, unit) js" where
  "setTheme p newTheme =
     bind (safeLocalStorage_setItem (storageKey p) newTheme)
       (\<lambda>saved. if saved then setThemeState newTheme
                 else seq (setThemeState newTheme)
                   (console_warn ''Failed to save theme to localStorage, changes may not persist''))"

definition setRadius :: "props \<Rightarrow> string \<Rightarrow> ('a provider_scheme, unit) js" where
  "setRadius p newRadius =
     (if newRadius \<in> set [''0'', ''0.3rem'', ''0.5rem'', ''0.75rem'']
      then bind (safeLocalStorage_setItem (radiusStorageKey p) newRadius)
             (\<lambda>saved. if saved then setRadiusState newRadius
                       else seq (setRadiusState newRadius)
                         (console_warn ''Failed to save radius to localStorage, changes may not persist''))
      else console_warn (''Invalid radius value: '' @ newRadius))"

definition resetToDefaults :: "props \<Rightarrow> ('a provider_scheme, unit) js" where
  "resetToDefaults p =
     seq (safeLocalStorage_removeItem (storageKey p))
    (seq (safeLocalStorage_removeItem (colorStorageKey p))
    (seq (safeLocalStorage_removeItem (radiusStorageKey p))
    (seq (setThemeState (theme_str (defaultTheme p)))
         (setRadiusState (radius_str (defaultRadius p))))))"

subsection \<open>Mounting, events and re-rendering\<close>

text \<open>
  Mounting runs the \<open>useState\<close> initialisers in order (theme, radius, resolvedTheme) and
  then the two effects. The provider exists only if none of them throws: outside a page the
  first effect throws on \<open>window\<close>.
\<close>

definition mount :: "props \<Rightarrow> browser \<Rightarrow> exn + provider" where
  "mount p b =
     (case bind (initialTheme p) (\<lambda>th. bind (initialRadius p) (\<lambda>rd. ret (th, rd))) b of
        (Inl e, b') \<Rightarrow> Inl e
      | (Inr (th, rd), b') \<Rightarrow>
          (case runEffects
                  \<lparr> ls_items = ls_items b', ls_throws = ls_throws b',
                    windowDefined = windowDefined b', prefersDark = prefersDark b',
                    classList = classList b', console = console b',
                    theme = th, radius = rd, resolvedTheme = resolve th b' \<rparr> of
             (Inl e, w) \<Rightarrow> Inl e
           | (Inr u, w) \<Rightarrow> Inr w))"

text \<open>
  After an event handler has run, React renders again and runs the two effects again when
  one of their dependencies (\<open>theme\<close>, \<open>radius\<close>) differs from the previous render.
\<close>

definition commit :: "'a provider_scheme \<Rightarrow> ('a provider_scheme, unit) js" where
  "commit before = (\<lambda>w.
     if theme w \<noteq> theme before \<or> radius w \<noteq> radius before
     then runEffects w else (Inr (), w))"

text \<open>
  What can happen to a mounted provider: a typed call of \<open>setTheme\<close>, a call of \<open>setRadius\<close>
  (checked at run time, so with any string), a reset, a change of the OS colour scheme
  (the browser updates the media query and calls the listener), and a change of the storage
  from outside (another tab, the user's privacy settings).
\<close>

datatype event =
    SetTheme Theme
  | SetRadius string
  | ResetToDefaults
  | MediaChange bool
  | StorageChange "string \<rightharpoonup> string" "storage_call \<Rightarrow> exn option"

definition step :: "props \<Rightarrow> event \<Rightarrow> ('a provider_scheme, unit) js" where
  "step p ev = (\<lambda>w. case ev of
       SetTheme t \<Rightarrow> seq (setTheme p (theme_str t)) (commit w) w
     | SetRadius r \<Rightarrow> seq (setRadius p r) (commit w) w
     | ResetToDefaults \<Rightarrow> seq (resetToDefaults p) (commit w) w
     | MediaChange m \<Rightarrow> handleChange m (w\<lparr>prefersDark := m\<rparr>)
     | StorageChange its thr \<Rightarrow> (Inr (), w\<lparr>ls_items := its, ls_throws := thr\<rparr>))"

fun run :: "props \<Rightarrow> event list \<Rightarrow> ('a provider_scheme, unit) js" where
  "run p [] = ret ()"
| "run p (ev # evs) = seq (step p ev) (run p evs)"

subsection \<open>The context value\<close>

text \<open>
  The object \<open>value\<close> handed to \<open>ThemeProviderContext.Provider\<close>, as the list of its
  properties. Reading a property the object does not have gives \<open>undefined\<close> (\<open>None\<close>).
\<close>

datatype callee = SetThemeFn | SetRadiusFn | ResetToDefaultsFn

datatype member = Str string | Bool bool | Fn callee

definition context_value :: "'a provider_scheme \<Rightarrow> (string \<times> member) list" where
  "context_value w =
     [(''theme'', Str (theme w)),
      (''radius'', Str (radius w)),
      (''resolvedTheme'', Str (resolvedTheme w)),
      (''setTheme'', Fn SetThemeFn),
      (''setRadius'', Fn SetRadiusFn),
      (''resetToDefaults'', Fn ResetToDefaultsFn),
      (''isSystemTheme'', Bool (theme w = ''system''))]"

definition useTheme :: "'a provider_scheme \<Rightarrow> string \<Rightarrow> member option" where
  "useTheme w name = map_of (context_value w) name"

text \<open>Calling what was read from the context: a value that is not a function throws.\<close>

definition call :: "props \<Rightarrow> member option \<Rightarrow> string \<Rightarrow> ('a provider_scheme, unit) js" where
  "call p f arg =
     (case f of
        Some (Fn SetThemeFn) \<Rightarrow> setTheme p arg
      | Some (Fn SetRadiusFn) \<Rightarrow> setRadius p arg
      | Some (Fn ResetToDefaultsFn) \<Rightarrow> resetToDefaults p
      | _ \<Rightarrow> throw (TypeError ''not a function''))"

section \<open>The theme settings panel\<close>

text \<open>
  The panel keeps \<open>isResetting\<close> and raises notifications through \<open>toast\<close>; a notification
  is recorded by its kind and its message key.
\<close>

datatype toast = ToastSuccess string | ToastError string

record panel = provider +
  isResetting :: bool
  toasts :: "toast list"

definition toast_success :: "string \<Rightarrow> ('a panel_scheme, unit) js" where
  "toast_success msg = (\<lambda>s. (Inr (), s\<lparr>toasts := toasts s @ [ToastSuccess msg]\<rparr>))"

definition toast_error :: "string \<Rightarrow> ('a panel_scheme, unit) js" where
  "toast_error msg = (\<lambda>s. (Inr (), s\<lparr>toasts := toasts s @ [ToastError msg]\<rparr>))"

definition setIsResetting :: "bool \<Rightarrow> ('a panel_scheme, unit) js" where
  "setIsResetting v = (\<lambda>s. (Inr (), s\<lparr>isResetting := v\<rparr>))"

definition handleThemeChange :: "props \<Rightarrow> Theme \<Rightarrow> ('a panel_scheme, unit) js" where
  "handleThemeChange p newTheme = (\<lambda>s.
     seq (call p (useTheme s ''setTheme'') (theme_str newTheme))
         (toast_success ''theme.themeChanged'') s)"

definition handleColorChange :: "props \<Rightarrow> string \<Rightarrow> ('a panel_scheme, unit) js" where
  "handleColorChange p colorName = (\<lambda>s.
     seq (call p (useTheme s ''setColorTheme'') colorName)
         (toast_success ''theme.themeSaved'') s)"

definition handleRadiusChange :: "props \<Rightarrow> string \<Rightarrow> ('a panel_scheme, unit) js" where
  "handleRadiusChange p radiusValue = (\<lambda>s.
     if radiusValue \<in> set [''0'', ''0.3rem'', ''0.5rem'', ''0.75rem'']
     then seq (call p (useTheme s ''setRadius'') radiusValue)
              (toast_success ''theme.radiusSaved'') s
     else (Inr (), s))"

definition handleResetToDefaults :: "props \<Rightarrow> ('a panel_scheme, unit) js" where
  "handleResetToDefaults p = (\<lambda>s.
     seq (setIsResetting True)
       (try_finally
          (try_catch
             (seq (call p (useTheme s ''resetToDefaults'') [])
                  (toast_success ''theme.resetSuccess''))
             (\<lambda>error. toast_error ''theme.resetFailed''))
          (setIsResetting False)) s)"

section \<open>The sidebar\<close>

subsection \<open>Menu tree\<close>

record admin =
  username :: string
  is_sudo :: bool

datatype icon =
    ArrowUpDown | Bell | Calendar | Cpu | Database | FileText | Layers
  | LayoutDashboardIcon | LayoutTemplate | ListTodo | Lock | MessageCircle | PieChart
  | Send | Settings | Settings2 | Share2Icon | UserCog | Users2 | UsersIcon | Webhook

text \<open>A menu entry; an entry written without \<open>items\<close> has the empty list.\<close>

datatype nav_item = NavItem (title: string) (url: string) (icon: icon) (items: "nav_item list")

text \<open>The condition \<open>admin?.is_sudo\<close>: false when there is no admin object.\<close>

definition admin_is_sudo :: "admin option \<Rightarrow> bool" where
  "admin_is_sudo adm = (case adm of None \<Rightarrow> False | Some a \<Rightarrow> is_sudo a)"

definition navMain :: "admin option \<Rightarrow> nav_item list" where
  "navMain adm =
     [NavItem ''dashboard'' ''/'' LayoutDashboardIcon [],
      NavItem ''users'' ''/users'' UsersIcon []] @
     (if admin_is_sudo adm
      then
        [NavItem ''statistics'' ''/statistics'' PieChart [],
         NavItem ''hosts'' ''/hosts'' ListTodo [],
         NavItem ''groups'' ''/groups'' Users2 [],
         NavItem ''admins.title'' ''/admins'' UserCog [],
         NavItem ''nodes.title'' ''/nodes'' Share2Icon
           [NavItem ''nodes.title'' ''/nodes'' Share2Icon [],
            NavItem ''settings.cores.title'' ''/nodes/cores'' Cpu [],
            NavItem ''nodes.logs.title'' ''/nodes/logs'' FileText []],
         NavItem ''templates.title'' ''/templates'' LayoutTemplate [],
         NavItem ''bulk.title'' ''/bulk'' Layers
           [NavItem ''bulk.groups'' ''/bulk'' Users2 [],
            NavItem ''bulk.expireDate'' ''/bulk/expire'' Calendar [],
            NavItem ''bulk.dataLimit'' ''/bulk/data'' ArrowUpDown [],
            NavItem ''bulk.proxySettings'' ''/bulk/proxy'' Lock []],
         NavItem ''settings.title'' ''/settings'' Settings2
           [NavItem ''settings.general.title'' ''/settings/general'' Settings [],
            NavItem ''settings.notifications.title'' ''/settings/notifications'' Bell [],
            NavItem ''settings.subscriptions.title'' ''/settings/subscriptions'' ListTodo [],
            NavItem ''settings.telegram.title'' ''/settings/telegram'' Send [],
            NavItem ''settings.discord.title'' ''/settings/discord'' MessageCircle [],
            NavItem ''settings.webhook.title'' ''/settings/webhook'' Webhook [],
            NavItem ''settings.cleanup.title'' ''/settings/cleanup'' Database []]]
      else [])"

text \<open>Every path of a menu tree, nested entries included.\<close>

fun paths :: "nav_item \<Rightarrow> string list" where
  "paths (NavItem t u i its) = u # concat (map paths its)"

definition menu_paths :: "nav_item list \<Rightarrow> string list" where
  "menu_paths menu = concat (map paths menu)"

text \<open>The administrative sections, by the path of their top-level entry.\<close>

definition admin_sections :: "string list" where
  "admin_sections = [''/statistics'', ''/hosts'', ''/groups'', ''/admins'', ''/nodes'',
     ''/templates'', ''/bulk'', ''/settings'']"

subsection \<open>Edge-swipe gesture\<close>

text \<open>
  \<open>clientX\<close> and \<open>window.innerWidth\<close> are JavaScript numbers holding pixel coordinates; the
  handler only subtracts and compares them. The two refs hold a number or \<open>null\<close>.
\<close>

record sidebar =
  touchStartX :: "real option"
  touchEndX :: "real option"
  openMobile :: bool

definition minSwipeDistance :: real where
  "minSwipeDistance = 50"

definition edgeThreshold :: real where
  "edgeThreshold = 50"

text \<open>\<open>!x\<close> for a ref of type \<open>number | null\<close>: true for \<open>null\<close> and for \<open>0\<close>.\<close>

definition falsy :: "real option \<Rightarrow> bool" where
  "falsy r = (case r of None \<Rightarrow> True | Some x \<Rightarrow> x = 0)"

definition handleTouchStart :: "real \<Rightarrow> sidebar \<Rightarrow> sidebar" where
  "handleTouchStart clientX s = s\<lparr>touchEndX := None, touchStartX := Some clientX\<rparr>"

definition handleTouchMove :: "real \<Rightarrow> sidebar \<Rightarrow> sidebar" where
  "handleTouchMove clientX s = s\<lparr>touchEndX := Some clientX\<rparr>"

definition setOpenMobile :: "bool \<Rightarrow> sidebar \<Rightarrow> sidebar" where
  "setOpenMobile v s = s\<lparr>openMobile := v\<rparr>"

definition handleTouchEnd :: "real \<Rightarrow> sidebar \<Rightarrow> sidebar" where
  "handleTouchEnd innerWidth s =
     (if falsy (touchStartX s) \<or> falsy (touchEndX s) then s
      else (case (touchStartX s, touchEndX s) of
          (Some startX, Some endX) \<Rightarrow>
            (let distance = startX - endX;
                 isLeftSwipe = distance > minSwipeDistance;
                 isRightSwipe = distance < - minSwipeDistance;
                 isFromRightEdge = startX > innerWidth - edgeThreshold;
                 s1 = (if isFromRightEdge
                       then (if isLeftSwipe \<and> \<not> openMobile s then setOpenMobile True s
                             else if isRightSwipe \<and> openMobile s then setOpenMobile False s
                             else s)
                       else s)
             in s1\<lparr>touchStartX := None, touchEndX := None\<rparr>)
        | _ \<Rightarrow> s))"

text \<open>
  One touch sequence: \<open>touchstart\<close> at \<open>x0\<close>, a \<open>touchmove\<close> at each of \<open>xs\<close>, then
  \<open>touchend\<close>.
\<close>

definition gesture :: "real \<Rightarrow> real \<Rightarrow> real list \<Rightarrow> sidebar \<Rightarrow> sidebar" where
  "gesture innerWidth x0 xs s =
     handleTouchEnd innerWidth (foldl (\<lambda>s x. handleTouchMove x s) (handleTouchStart x0 s) xs)"

section \<open>Properties stated about the provider\<close>

text \<open>
  What the provider sees of a storage key when it reads it through \<open>safeLocalStorage\<close>:
  the stored string, or nothing when the key is absent or the read throws.
\<close>

definition stored :: "'a browser_scheme \<Rightarrow> string \<Rightarrow> string option" where
  "stored b k = (case ls_throws b (GetItem k) of None \<Rightarrow> ls_items b k | Some e \<Rightarrow> None)"

text \<open>Both fields of the preference set hold one of their enumerated values.\<close>

definition valid_prefs :: "'a provider_scheme \<Rightarrow> bool" where
  "valid_prefs w =
     (theme w \<in> set [''light'', ''dark'', ''system''] \<and>
      radius w \<in> set [''0'', ''0.3rem'', ''0.5rem'', ''0.75rem''])"

text \<open>The resolved theme is what the provider's own expression gives for the current mode.\<close>

definition consistent :: "'a provider_scheme \<Rightarrow> bool" where
  "consistent w = (resolvedTheme w = resolve (theme w) w)"

section \<open>Concrete inputs\<close>

definition no_faults :: "storage_call \<Rightarrow> exn option" where
  "no_faults = (\<lambda>c. None)"

definition access_denied :: "storage_call \<Rightarrow> exn option" where
  "access_denied = (\<lambda>c. Some (DOMException ''SecurityError''))"

definition dark_browser :: browser where
  "dark_browser = \<lparr> ls_items = Map.empty, ls_throws = no_faults, windowDefined = True,
     prefersDark = True, classList = [], console = [] \<rparr>"

text \<open>A panel over a provider mounted with the default props on a dark system.\<close>

definition panel0 :: panel where
  "panel0 = \<lparr> ls_items = Map.empty, ls_throws = no_faults, windowDefined = True,
     prefersDark = True, classList = [''dark''], console = [],
     theme = ''system'', radius = ''0.5rem'', resolvedTheme = ''dark'',
     isResetting = False, toasts = [] \<rparr>"

text \<open>
  A provider whose storage holds a saved theme from an earlier session while every storage
  call of the page throws (site data blocked).
\<close>

definition blocked_provider :: provider where
  "blocked_provider = \<lparr> ls_items = [''theme'' \<mapsto> ''dark''], ls_throws = access_denied,
     windowDefined = True, prefersDark = False, classList = [''light''], console = [],
     theme = ''light'', radius = ''0'', resolvedTheme = ''light'' \<rparr>"

text \<open>A provider with all three keys saved and a working storage.\<close>

definition saved_provider :: provider where
  "saved_provider = \<lparr> ls_items = [''theme'' \<mapsto> ''dark'', ''color-theme'' \<mapsto> ''red'',
       ''radius'' \<mapsto> ''0''],
     ls_throws = no_faults, windowDefined = True, prefersDark = False,
     classList = [''dark''], console = [],
     theme = ''dark'', radius = ''0'', resolvedTheme = ''dark'' \<rparr>"

text \<open>A browser whose storage holds values outside the enumerated sets.\<close>

definition junk_browser :: browser where
  "junk_browser = \<lparr> ls_items = [''theme'' \<mapsto> ''purple'', ''color-theme'' \<mapsto> ''neon'',
       ''radius'' \<mapsto> ''9px''],
     ls_throws = no_faults, windowDefined = True, prefersDark = False,
     classList = [], console = [] \<rparr>"

text \<open>The provider mounted from \<open>junk_browser\<close> with the default props.\<close>

definition mounted_junk :: provider where
  "mounted_junk = \<lparr> ls_items = [''theme'' \<mapsto> ''purple'', ''color-theme'' \<mapsto> ''neon'',
       ''radius'' \<mapsto> ''9px''],
     ls_throws = no_faults, windowDefined = True, prefersDark = False,
     classList = [''light''], console = [],
     theme = ''system'', radius = ''0.5rem'', resolvedTheme = ''light'' \<rparr>"

definition closed_sidebar :: sidebar where
  "closed_sidebar = \<lparr> touchStartX = None, touchEndX = None, openMobile = False \<rparr>"

definition open_sidebar :: sidebar where
  "open_sidebar = \<lparr> touchStartX = None, touchEndX = None, openMobile = True \<rparr>"

definition sudo_admin :: admin where
  "sudo_admin = \<lparr> username = ''root'', is_sudo = True \<rparr>"

definition plain_admin :: admin where
  "plain_admin = \<lparr> username = ''guest'', is_sudo = False \<rparr>"

section \<open>Evaluation lemmas\<close>

lemmas js_defs = ret_def throw_def bind_def seq_def try_catch_def try_finally_def

lemmas ls_defs = localStorage_getItem_def localStorage_setItem_def localStorage_removeItem_def
  console_warn_def safeLocalStorage_getItem_def safeLocalStorage_setItem_def
  safeLocalStorage_removeItem_def

lemmas st_defs = setThemeState_def setRadiusState_def setResolvedTheme_def applyTheme_def

lemma moves_keep_start:
  "touchStartX (foldl (\<lambda>s x. handleTouchMove x s) s xs) = touchStartX s"
  by (induction xs arbitrary: s) (simp_all add: handleTouchMove_def)

lemma moves_keep_open:
  "openMobile (foldl (\<lambda>s x. handleTouchMove x s) s xs) = openMobile s"
  by (induction xs arbitrary: s) (simp_all add: handleTouchMove_def)

section \<open>The gesture handler\<close>

text \<open>
  What \<open>touchend\<close> does once both refs hold a non-zero coordinate: the menu opens on a left
  swipe from the right edge while closed, closes on a right swipe from the right edge while
  open, and is left alone otherwise.
\<close>

lemma handleTouchEnd_nonzero:
  assumes "touchStartX s = Some startX" "touchEndX s = Some endX" "startX \<noteq> 0" "endX \<noteq> 0"
  shows "openMobile (handleTouchEnd innerWidth s) =
     (if startX > innerWidth - 50 \<and> startX - endX > 50 \<and> \<not> openMobile s then True
      else if startX > innerWidth - 50 \<and> startX - endX < - 50 \<and> openMobile s then False
      else openMobile s)"
  using assms
  by (simp add: handleTouchEnd_def falsy_def Let_def minSwipeDistance_def edgeThreshold_def
      setOpenMobile_def)

text \<open>
  C10. A touch sequence whose \<open>touchstart\<close> is at \<open>clientX = 0\<close> is discarded: \<open>touchend\<close>
  returns early (the state after it is the state before it, refs included), so the menu
  stays as it was, whatever the moves and the width of the window.
\<close>

theorem touchstart_at_zero_discarded:
  "gesture innerWidth 0 xs s = foldl (\<lambda>s x. handleTouchMove x s) (handleTouchStart 0 s) xs
   \<and> openMobile (gesture innerWidth 0 xs s) = openMobile s"
  by (simp add: gesture_def handleTouchEnd_def falsy_def moves_keep_start moves_keep_open
      handleTouchStart_def)

text \<open>
  C8. On a window 400 pixels wide with the menu closed, a touch starting at 380 (within the
  edge threshold of the right edge) and moving left to the pixel column 0 travels 380 pixels,
  yet the menu stays closed: the recorded end position 0 is falsy and \<open>touchend\<close> returns
  early. The same touch ending one pixel earlier opens the menu.
\<close>

theorem edge_swipe_to_zero_ignored:
  "openMobile (gesture 400 380 [0] closed_sidebar) = False
   \<and> openMobile (gesture 400 380 [1] closed_sidebar) = True"
  by (simp add: gesture_def handleTouchEnd_def falsy_def handleTouchStart_def
      handleTouchMove_def minSwipeDistance_def edgeThreshold_def setOpenMobile_def
      closed_sidebar_def)

section \<open>The setters\<close>

lemma setTheme_eq:
  "setTheme p m w = (Inr (),
     (case ls_throws w (SetItem (storageKey p) m) of
        None \<Rightarrow> w\<lparr>ls_items := (ls_items w)(storageKey p \<mapsto> m), theme := m\<rparr>
      | Some e \<Rightarrow> w\<lparr>console := console w @
            [''Failed to set localStorage item '' @ storageKey p @ '':'',
             ''Failed to save theme to localStorage, changes may not persist''],
           theme := m\<rparr>))"
  by (simp add: setTheme_def js_defs ls_defs setThemeState_def split: option.splits)

lemma setRadius_eq:
  "setRadius p r w = (Inr (),
     (if r \<in> set [''0'', ''0.3rem'', ''0.5rem'', ''0.75rem''] then
        (case ls_throws w (SetItem (radiusStorageKey p) r) of
           None \<Rightarrow> w\<lparr>ls_items := (ls_items w)(radiusStorageKey p \<mapsto> r), radius := r\<rparr>
         | Some e \<Rightarrow> w\<lparr>console := console w @
               [''Failed to set localStorage item '' @ radiusStorageKey p @ '':'',
                ''Failed to save radius to localStorage, changes may not persist''],
              radius := r\<rparr>)
      else w\<lparr>console := console w @ [''Invalid radius value: '' @ r]\<rparr>))"
  by (simp add: setRadius_def js_defs ls_defs setRadiusState_def split: option.splits)

text \<open>
  C4. For a value outside the four radius tokens, \<open>setRadius\<close> returns with the state as it
  was (theme, radius, resolved theme, storage), except for one warning more on the console.
\<close>

theorem setRadius_rejects_invalid:
  "newRadius \<notin> set [''0'', ''0.3rem'', ''0.5rem'', ''0.75rem''] \<Longrightarrow>
   setRadius p newRadius w =
     (Inr (), w\<lparr>console := console w @ [''Invalid radius value: '' @ newRadius]\<rparr>)"
  by (simp add: setRadius_def console_warn_def)

theorem setRadius_rejects_invalid_witness:
  "''2rem'' \<notin> set [''0'', ''0.3rem'', ''0.5rem'', ''0.75rem''] \<and>
   setRadius default_props ''2rem'' panel0 =
     (Inr (), panel0\<lparr>console := [''Invalid radius value: 2rem'']\<rparr>)"
  using setRadius_rejects_invalid [of "''2rem''" default_props panel0]
  by (simp add: panel0_def)

text \<open>
  C5. \<open>setTheme\<close> always returns normally and leaves the new mode in the state. When the
  storage call succeeds the mode is stored under the storage key and nothing else changes;
  when it throws, the storage is untouched, two warnings are logged, and the state still
  holds the new mode.
\<close>

theorem setTheme_updates_state:
  "fst (setTheme p m w) = Inr ()
   \<and> theme (snd (setTheme p m w)) = m
   \<and> (case ls_throws w (SetItem (storageKey p) m) of
        None \<Rightarrow> snd (setTheme p m w) =
            w\<lparr>ls_items := (ls_items w)(storageKey p \<mapsto> m), theme := m\<rparr>
      | Some e \<Rightarrow> snd (setTheme p m w) =
            w\<lparr>console := console w @
                [''Failed to set localStorage item '' @ storageKey p @ '':'',
                 ''Failed to save theme to localStorage, changes may not persist''],
              theme := m\<rparr>)"
  by (simp add: setTheme_def js_defs ls_defs setThemeState_def split: option.splits)

section \<open>The panel and the context\<close>

text \<open>
  C1. The context value has no \<open>setColorTheme\<close> and no \<open>colorTheme\<close>. The panel's
  \<open>handleColorChange\<close> calls what it read under \<open>setColorTheme\<close>, which is \<open>undefined\<close>:
  the call throws a TypeError, nothing is stored, no state changes and no notification is
  raised.
\<close>

theorem setColorTheme_not_provided:
  "useTheme panel0 ''setColorTheme'' = None
   \<and> useTheme panel0 ''colorTheme'' = None
   \<and> handleColorChange default_props ''red'' panel0 = (Inl (TypeError ''not a function''), panel0)"
  by (simp add: useTheme_def context_value_def handleColorChange_def call_def js_defs)

section \<open>The menu tree\<close>

text \<open>
  C7. For an admin without the sudo flag (or with no admin object at all) the menu has the
  two entries dashboard and users, and none of the administrative sections (statistics,
  hosts, groups, admins, nodes, templates, bulk, settings) occurs anywhere in the tree. For
  an admin with the flag every one of these sections is a top-level entry.
\<close>

theorem menu_by_privilege:
  "(\<not> admin_is_sudo adm \<longrightarrow>
      map url (navMain adm) = [''/'', ''/users'']
      \<and> set (menu_paths (navMain adm)) \<inter> set admin_sections = {})
   \<and> (admin_is_sudo adm \<longrightarrow> set admin_sections \<subseteq> set (map url (navMain adm)))"
  by (simp add: navMain_def menu_paths_def admin_sections_def)

theorem menu_by_privilege_witness:
  "\<not> admin_is_sudo None \<and> \<not> admin_is_sudo (Some plain_admin) \<and> admin_is_sudo (Some sudo_admin)
   \<and> map url (navMain None) = [''/'', ''/users'']
   \<and> map url (navMain (Some plain_admin)) = [''/'', ''/users'']
   \<and> set (menu_paths (navMain (Some plain_admin))) \<inter> set admin_sections = {}
   \<and> set admin_sections \<subseteq> set (map url (navMain (Some sudo_admin)))"
  using menu_by_privilege [of None] menu_by_privilege [of "Some plain_admin"]
    menu_by_privilege [of "Some sudo_admin"]
  by (simp add: admin_is_sudo_def plain_admin_def sudo_admin_def)

section \<open>Reset\<close>

lemma safe_remove_eq: "safeLocalStorage_removeItem k w = 
   (case ls_throws w (RemoveItem k) of
      None \<Rightarrow> (Inr True, w\<lparr>ls_items := (ls_items w)(k := None)\<rparr>)
    | Some e \<Rightarrow> (Inr False, w\<lparr>console := console w @
          [''Failed to remove localStorage item '' @ k @ '':'']\<rparr>))"
  by (simp add: js_defs ls_defs split: option.splits)

lemma reset_ret: "fst (resetToDefaults p w) = Inr ()"
  by (simp add: resetToDefaults_def seq_def bind_def safe_remove_eq st_defs split: option.splits)

lemma reset_fields: "theme (snd (resetToDefaults p w)) = theme_str (defaultTheme p)"
  "radius (snd (resetToDefaults p w)) = radius_str (defaultRadius p)"
  "resolvedTheme (snd (resetToDefaults p w)) = resolvedTheme w"
  "windowDefined (snd (resetToDefaults p w)) = windowDefined w"
  "prefersDark (snd (resetToDefaults p w)) = prefersDark w"
  "ls_throws (snd (resetToDefaults p w)) = ls_throws w"
  by (simp_all add: resetToDefaults_def seq_def bind_def safe_remove_eq st_defs split: option.splits)

lemma safe_remove_fields:
  "fst (safeLocalStorage_removeItem k w) = Inr (ls_throws w (RemoveItem k) = None)"
  "ls_items (snd (safeLocalStorage_removeItem k w)) =
     (if ls_throws w (RemoveItem k) = None then (ls_items w)(k := None) else ls_items w)"
  "ls_throws (snd (safeLocalStorage_removeItem k w)) = ls_throws w"
  by (simp_all add: safe_remove_eq split: option.splits)

lemma safe_remove_item:
  "ls_items (snd (safeLocalStorage_removeItem k' w)) k =
     (if k = k' \<and> ls_throws w (RemoveItem k) = None then None else ls_items w k)"
  by (cases "k = k'") (simp_all add: safe_remove_fields)

lemma safe_remove_console:
  "console (snd (safeLocalStorage_removeItem k w)) =
     console w @ (if ls_throws w (RemoveItem k) = None then []
                  else [''Failed to remove localStorage item '' @ k @ '':''])"
  by (simp add: safe_remove_eq split: option.splits)

lemma seq_safe_remove: "seq (safeLocalStorage_removeItem k) n w = n (snd (safeLocalStorage_removeItem k w))"
  by (simp add: seq_def bind_def safe_remove_eq split: option.splits)

lemma reset_eq: "resetToDefaults p w = (Inr (),
   (snd (safeLocalStorage_removeItem (radiusStorageKey p)
     (snd (safeLocalStorage_removeItem (colorStorageKey p)
       (snd (safeLocalStorage_removeItem (storageKey p) w))))))
   \<lparr>theme := theme_str (defaultTheme p), radius := radius_str (defaultRadius p)\<rparr>)"
  by (simp add: resetToDefaults_def seq_safe_remove) (simp add: seq_def bind_def st_defs)

lemma reset_items: "ls_items (snd (resetToDefaults p w)) k =
   (if k \<in> set [storageKey p, colorStorageKey p, radiusStorageKey p]
         \<and> ls_throws w (RemoveItem k) = None
    then None else ls_items w k)"
proof -
  define w1 where "w1 = snd (safeLocalStorage_removeItem (storageKey p) w)"
  define w2 where "w2 = snd (safeLocalStorage_removeItem (colorStorageKey p) w1)"
  define w3 where "w3 = snd (safeLocalStorage_removeItem (radiusStorageKey p) w2)"
  define ok where "ok = (ls_throws w (RemoveItem k) = None)"
  have t1: "ls_throws w1 = ls_throws w" and t2: "ls_throws w2 = ls_throws w"
    by (simp_all add: w1_def w2_def safe_remove_fields(3))
  have i1: "ls_items w1 k = (if k = storageKey p \<and> ok then None else ls_items w k)"
    unfolding w1_def ok_def by (rule safe_remove_item)
  have i2: "ls_items w2 k = (if k = colorStorageKey p \<and> ok then None else ls_items w1 k)"
    unfolding w2_def ok_def t1 [symmetric] by (rule safe_remove_item)
  have i3: "ls_items w3 k = (if k = radiusStorageKey p \<and> ok then None else ls_items w2 k)"
    unfolding w3_def ok_def t2 [symmetric] by (rule safe_remove_item)
  have "ls_items (snd (resetToDefaults p w)) k = ls_items w3 k"
    by (simp add: reset_eq w1_def w2_def w3_def)
  also have "\<dots> = (if k \<in> set [storageKey p, colorStorageKey p, radiusStorageKey p] \<and> ok
                    then None else ls_items w k)"
    using i1 i2 i3 by auto
  finally show ?thesis by (simp only: ok_def)
qed





lemma reset_console:
  "console (snd (resetToDefaults p w)) =
     console w @ concat (map (\<lambda>k. if ls_throws w (RemoveItem k) = None then []
                                   else [''Failed to remove localStorage item '' @ k @ '':''])
                             [storageKey p, colorStorageKey p, radiusStorageKey p])"
  by (simp add: reset_eq safe_remove_console safe_remove_fields(3))

text \<open>
  C3 (as amended). From every state \<open>resetToDefaults\<close> returns normally and leaves the
  default theme and the default radius in the state. Each of the three storage keys whose
  \<open>removeItem\<close> call does not throw is absent from the storage afterwards; a key whose
  removal throws keeps what was stored under it, and each removal that throws is logged:
  the console grows by exactly one warning per failed removal, in the order theme key,
  colour key, radius key.
\<close>

theorem resetToDefaults_result:
  "fst (resetToDefaults p w) = Inr ()
   \<and> theme (snd (resetToDefaults p w)) = theme_str (defaultTheme p)
   \<and> radius (snd (resetToDefaults p w)) = radius_str (defaultRadius p)
   \<and> (\<forall>k \<in> set [storageKey p, colorStorageKey p, radiusStorageKey p].
         ls_items (snd (resetToDefaults p w)) k =
           (if ls_throws w (RemoveItem k) = None then None else ls_items w k))
   \<and> console (snd (resetToDefaults p w)) =
       console w @ concat (map (\<lambda>k. if ls_throws w (RemoveItem k) = None then []
                                     else [''Failed to remove localStorage item '' @ k @ '':''])
                               [storageKey p, colorStorageKey p, radiusStorageKey p])"
  by (simp only: reset_ret reset_fields reset_console) (simp add: reset_items)

theorem resetToDefaults_result_witness:
  "ls_throws saved_provider (RemoveItem ''theme'') = None
   \<and> ls_throws saved_provider (RemoveItem ''color-theme'') = None
   \<and> ls_throws saved_provider (RemoveItem ''radius'') = None
   \<and> ls_items saved_provider ''theme'' = Some ''dark''
   \<and> fst (resetToDefaults default_props saved_provider) = Inr ()
   \<and> theme (snd (resetToDefaults default_props saved_provider)) = ''system''
   \<and> radius (snd (resetToDefaults default_props saved_provider)) = ''0.5rem''
   \<and> ls_items (snd (resetToDefaults default_props saved_provider)) ''theme'' = None
   \<and> ls_items (snd (resetToDefaults default_props saved_provider)) ''color-theme'' = None
   \<and> ls_items (snd (resetToDefaults default_props saved_provider)) ''radius'' = None
   \<and> console (snd (resetToDefaults default_props saved_provider)) = []
   \<and> ls_throws blocked_provider (RemoveItem ''theme'') \<noteq> None
   \<and> theme (snd (resetToDefaults default_props blocked_provider)) = ''system''
   \<and> radius (snd (resetToDefaults default_props blocked_provider)) = ''0.5rem''
   \<and> console (snd (resetToDefaults default_props blocked_provider)) =
       [''Failed to remove localStorage item theme:'',
        ''Failed to remove localStorage item color-theme:'',
        ''Failed to remove localStorage item radius:'']"
  using resetToDefaults_result [of default_props saved_provider]
    resetToDefaults_result [of default_props blocked_provider]
  by (simp add: default_props_def saved_provider_def blocked_provider_def no_faults_def
      access_denied_def)

text \<open>
  With a saved theme in a storage whose calls all throw, the key \<open>theme\<close> is still
  present after the reset.
\<close>

theorem resetToDefaults_keeps_key_counterexample:
  "ls_items (snd (resetToDefaults default_props blocked_provider)) ''theme'' = Some ''dark''"
  by (simp add: reset_items default_props_def blocked_provider_def access_denied_def)

section \<open>Effects, events and invariants\<close>

lemma resolve_cases: "resolve th b = ''light'' \<or> resolve th b = ''dark''"
  by (simp add: resolve_def getSystemTheme_def)

lemma applyTheme_eq:
  "windowDefined w \<Longrightarrow> m = ''light'' \<or> m = ''dark'' \<Longrightarrow>
   applyTheme m w =
     (Inr (), w\<lparr>classList :=
        filter (\<lambda>c. c \<noteq> ''light'' \<and> c \<noteq> ''dark'') (classList w) @ [m]\<rparr>)"
  unfolding applyTheme_def Let_def by (simp only: set_filter mem_Collect_eq) auto

lemma applyThemeEffect_eq:
  "windowDefined w \<Longrightarrow>
   applyThemeEffect w = (Inr (), w\<lparr>resolvedTheme := resolve (theme w) w,
   classList := filter (\<lambda>c. c \<noteq> ''light'' \<and> c \<noteq> ''dark'') (classList w)
                  @ [resolve (theme w) w]\<rparr>)"
  using resolve_cases [of "theme w" w]
  by (simp add: applyThemeEffect_def seq_def bind_def setResolvedTheme_def applyTheme_eq Let_def)

lemma runEffects_eq: "windowDefined w \<Longrightarrow> runEffects w = applyThemeEffect w"
  by (simp add: runEffects_def mediaQueryEffect_def window_matchMedia_def seq_def bind_def
      ret_def)

lemma runEffects_without_window:
  "\<not> windowDefined w \<Longrightarrow> runEffects w = (Inl (ReferenceError ''window is not defined''), w)"
  by (simp add: runEffects_def mediaQueryEffect_def window_matchMedia_def seq_def bind_def)

lemma handleChange_eq: "windowDefined w \<Longrightarrow> handleChange m w = (Inr (), if theme w = ''system'' then
    w\<lparr>resolvedTheme := (if m then ''dark'' else ''light''),
   classList := filter (\<lambda>c. c \<noteq> ''light'' \<and> c \<noteq> ''dark'') (classList w)
                  @ [if m then ''dark'' else ''light'']\<rparr> else w)"
  by (simp add: handleChange_def seq_def bind_def setResolvedTheme_def applyTheme_eq Let_def)

lemma resolve_cong:
  "windowDefined b' = windowDefined b \<Longrightarrow> prefersDark b' = prefersDark b \<Longrightarrow>
   resolve th b' = resolve th b"
  by (simp add: resolve_def getSystemTheme_def)

lemma theme_str_valid: "theme_str t \<in> set [''light'', ''dark'', ''system'']"
  by (cases t) simp_all

lemma radius_str_valid: "radius_str r \<in> set [''0'', ''0.3rem'', ''0.5rem'', ''0.75rem'']"
  by (cases r) simp_all


lemma setTheme_fields: "fst (setTheme p m w) = Inr ()" "theme (snd (setTheme p m w)) = m"
  "radius (snd (setTheme p m w)) = radius w"
  "resolvedTheme (snd (setTheme p m w)) = resolvedTheme w"
  "windowDefined (snd (setTheme p m w)) = windowDefined w"
  "prefersDark (snd (setTheme p m w)) = prefersDark w"
  by (simp_all add: setTheme_eq split: option.splits)

lemma setRadius_fields: "fst (setRadius p r w) = Inr ()" "theme (snd (setRadius p r w)) = theme w"
  "radius (snd (setRadius p r w)) = (if r \<in> set [''0'', ''0.3rem'', ''0.5rem'', ''0.75rem''] then r else radius w)"
  "resolvedTheme (snd (setRadius p r w)) = resolvedTheme w"
  "windowDefined (snd (setRadius p r w)) = windowDefined w"
  "prefersDark (snd (setRadius p r w)) = prefersDark w"
  by (simp_all add: setRadius_eq split: option.splits)

lemma consistent_effect: "consistent (w\<lparr>resolvedTheme := resolve (theme w) w, classList := cl\<rparr>)"
  by (simp add: consistent_def resolve_def getSystemTheme_def)

lemma commit_fields:
  assumes "windowDefined w1"
  shows "fst (commit w w1) = Inr ()" "theme (snd (commit w w1)) = theme w1"
    "radius (snd (commit w w1)) = radius w1" "windowDefined (snd (commit w w1))"
    "prefersDark (snd (commit w w1)) = prefersDark w1"
  using assms by (simp_all add: commit_def runEffects_eq applyThemeEffect_eq)

lemma commit_consistent:
  assumes "resolvedTheme w1 = resolvedTheme w" "windowDefined w1 = windowDefined w"
    "prefersDark w1 = prefersDark w" "consistent w" "windowDefined w"
  shows "consistent (snd (commit w w1))"
proof (cases "theme w1 \<noteq> theme w \<or> radius w1 \<noteq> radius w")
  case True
  then show ?thesis
    using assms(2,5) by (simp add: commit_def runEffects_eq applyThemeEffect_eq consistent_effect)
next
  case False
  then have "commit w w1 = (Inr (), w1)" by (simp add: commit_def)
  moreover have "resolve (theme w1) w1 = resolve (theme w) w"
    using False resolve_cong [OF assms(2,3), of "theme w"] by simp
  ultimately show ?thesis using assms(1,4) by (simp add: consistent_def)
qed

lemma seq_commit: "fst (m w) = Inr () \<Longrightarrow> seq m (commit w) w = commit w (snd (m w))"
  by (cases "m w") (simp add: seq_def bind_def)



lemma after_setter:
  assumes m: "fst (m w) = Inr ()"
    and f: "resolvedTheme (snd (m w)) = resolvedTheme w"
           "windowDefined (snd (m w)) = windowDefined w"
           "prefersDark (snd (m w)) = prefersDark w"
    and v: "valid_prefs w \<longrightarrow> valid_prefs (snd (m w))"
    and wd: "windowDefined w"
  shows "\<exists>w'. seq m (commit w) w = (Inr (), w') \<and> windowDefined w'
    \<and> (valid_prefs w \<longrightarrow> valid_prefs w')
    \<and> (consistent w \<longrightarrow> consistent w')"
proof -
  let ?w1 = "snd (m w)"
  let ?w' = "snd (commit w ?w1)"
  have wd1: "windowDefined ?w1" using f(2) wd by simp
  have e: "seq m (commit w) w = (Inr (), ?w')"
    using seq_commit [of m w, OF m] commit_fields(1) [OF wd1, of w]
    by (cases "commit w ?w1") simp
  have "valid_prefs ?w' = valid_prefs ?w1"
    by (simp add: valid_prefs_def commit_fields [OF wd1])
  moreover have "consistent w \<longrightarrow> consistent ?w'"
    using commit_consistent [OF f _ wd] by blast
  ultimately show ?thesis
    using e v commit_fields(4) [OF wd1, of w] by blast
qed

lemma setTheme_valid: "valid_prefs w \<Longrightarrow> valid_prefs (snd (setTheme p (theme_str t) w))"
  using theme_str_valid [of t] by (simp add: valid_prefs_def setTheme_fields)

lemma setRadius_valid: "valid_prefs w \<Longrightarrow> valid_prefs (snd (setRadius p r w))"
  by (simp add: valid_prefs_def setRadius_fields)

lemma reset_valid: "valid_prefs (snd (resetToDefaults p w))"
  using theme_str_valid [of "defaultTheme p"] radius_str_valid [of "defaultRadius p"]
  by (simp add: valid_prefs_def reset_fields)

lemma step_ok:
  assumes wd: "windowDefined w"
  shows "\<exists>w'. step p ev w = (Inr (), w') \<and> windowDefined w'
    \<and> (valid_prefs w \<longrightarrow> valid_prefs w')
    \<and> (consistent w \<longrightarrow> consistent w')"
proof (cases ev)
  case (SetTheme t)
  show ?thesis
    using after_setter [of "setTheme p (theme_str t)" w] setTheme_valid [of w p t] wd
    by (simp add: SetTheme step_def setTheme_fields)
next
  case (SetRadius r)
  show ?thesis
    using after_setter [of "setRadius p r" w] setRadius_valid [of w p r] wd
    by (simp add: SetRadius step_def setRadius_fields)
next
  case ResetToDefaults
  show ?thesis
    using after_setter [of "resetToDefaults p" w] reset_valid [of p w] wd
    by (simp add: ResetToDefaults step_def reset_fields reset_ret)
next
  case (MediaChange m)
  then show ?thesis
    using wd
    by (simp add: step_def handleChange_eq valid_prefs_def consistent_def resolve_def
        getSystemTheme_def)
next
  case (StorageChange its thr)
  then show ?thesis
    using wd
    by (simp add: step_def valid_prefs_def consistent_def resolve_def getSystemTheme_def)
qed

lemma run_ok:
  "windowDefined w \<Longrightarrow>
   \<exists>w'. run p evs w = (Inr (), w') \<and> windowDefined w'
    \<and> (valid_prefs w \<longrightarrow> valid_prefs w')
    \<and> (consistent w \<longrightarrow> consistent w')"
proof (induction evs arbitrary: w)
  case Nil
  then show ?case by (simp add: ret_def)
next
  case (Cons ev evs)
  obtain w1 where s: "step p ev w = (Inr (), w1)" "windowDefined w1"
     "valid_prefs w \<longrightarrow> valid_prefs w1" "consistent w \<longrightarrow> consistent w1"
    using step_ok [OF Cons.prems, of p ev] by blast
  obtain w2 where r: "run p evs w1 = (Inr (), w2)" "windowDefined w2"
     "valid_prefs w1 \<longrightarrow> valid_prefs w2" "consistent w1 \<longrightarrow> consistent w2"
    using Cons.IH [OF s(2)] by blast
  show ?case using s r by (simp add: seq_def bind_def)
qed

lemma safe_get_eq: "safeLocalStorage_getItem k b =
   (case ls_throws b (GetItem k) of
      None \<Rightarrow> (Inr (ls_items b k), b)
    | Some e \<Rightarrow> (Inr None, b\<lparr>console := console b @
          [''Failed to get localStorage item '' @ k @ '':'']\<rparr>))"
  by (simp add: js_defs ls_defs split: option.splits)

lemma initialTheme_eq: "\<exists>b'. initialTheme p b = (Inr (case stored b (storageKey p) of
            None \<Rightarrow> theme_str (defaultTheme p)
          | Some s \<Rightarrow> if s \<in> set [''light'', ''dark'', ''system'']
                      then s else theme_str (defaultTheme p)), b')
     \<and> ls_items b' = ls_items b \<and> ls_throws b' = ls_throws b
     \<and> windowDefined b' = windowDefined b \<and> prefersDark b' = prefersDark b"
  by (auto simp add: initialTheme_def bind_def ret_def safe_get_eq stored_def split: option.splits)

lemma initialRadius_eq: "\<exists>b'. initialRadius p b = (Inr (case stored b (radiusStorageKey p) of
            None \<Rightarrow> radius_str (defaultRadius p)
          | Some s \<Rightarrow> if s \<in> set [''0'', ''0.3rem'', ''0.5rem'', ''0.75rem'']
                      then s else radius_str (defaultRadius p)), b')
     \<and> ls_items b' = ls_items b \<and> ls_throws b' = ls_throws b
     \<and> windowDefined b' = windowDefined b \<and> prefersDark b' = prefersDark b"
  by (auto simp add: initialRadius_def bind_def ret_def safe_get_eq stored_def split: option.splits)


lemma mount_ok:
  assumes wd: "windowDefined b"
  shows "\<exists>w0. mount p b = Inr w0
     \<and> theme w0 = (case stored b (storageKey p) of
            None \<Rightarrow> theme_str (defaultTheme p)
          | Some s \<Rightarrow> if s \<in> set [''light'', ''dark'', ''system'']
                      then s else theme_str (defaultTheme p))
     \<and> radius w0 = (case stored b (radiusStorageKey p) of
            None \<Rightarrow> radius_str (defaultRadius p)
          | Some s \<Rightarrow> if s \<in> set [''0'', ''0.3rem'', ''0.5rem'', ''0.75rem'']
                      then s else radius_str (defaultRadius p))
     \<and> windowDefined w0 \<and> prefersDark w0 = prefersDark b
     \<and> consistent w0"
proof -
  define th where "th = (case stored b (storageKey p) of
            None \<Rightarrow> theme_str (defaultTheme p)
          | Some s \<Rightarrow> if s \<in> set [''light'', ''dark'', ''system'']
                      then s else theme_str (defaultTheme p))"
  define rd where "rd = (case stored b (radiusStorageKey p) of
            None \<Rightarrow> radius_str (defaultRadius p)
          | Some s \<Rightarrow> if s \<in> set [''0'', ''0.3rem'', ''0.5rem'', ''0.75rem'']
                      then s else radius_str (defaultRadius p))"
  obtain b1 where 1: "initialTheme p b = (Inr th, b1)"
     "ls_items b1 = ls_items b" "ls_throws b1 = ls_throws b"
     "windowDefined b1 = windowDefined b" "prefersDark b1 = prefersDark b"
    unfolding th_def using initialTheme_eq [of p b] by blast
  have s: "stored b1 k = stored b k" for k
    using 1(2,3) by (simp add: stored_def split: option.splits)
  obtain b2 where 2: "initialRadius p b1 = (Inr rd, b2)"
     "windowDefined b2 = windowDefined b1" "prefersDark b2 = prefersDark b1"
    unfolding rd_def s [symmetric] using initialRadius_eq [of p b1] by blast
  define w where "w = \<lparr> ls_items = ls_items b2, ls_throws = ls_throws b2,
                    windowDefined = windowDefined b2, prefersDark = prefersDark b2,
                    classList = classList b2, console = console b2,
                    theme = th, radius = rd, resolvedTheme = resolve th b2 \<rparr>"
  define w0 where "w0 = snd (applyThemeEffect w)"
  have ww: "windowDefined w" using wd by (simp add: w_def 1 2)
  have e: "runEffects w = (Inr (), w0)"
    by (simp add: runEffects_eq [OF ww] applyThemeEffect_eq [OF ww] w0_def)
  have "mount p b = (case runEffects w of (Inl e, w') \<Rightarrow> Inl e | (Inr u, w') \<Rightarrow> Inr w')"
    by (simp add: mount_def bind_def ret_def 1(1) 2(1) w_def)
  then have m: "mount p b = Inr w0" by (simp add: e)
  have f: "theme w0 = th" "radius w0 = rd" "windowDefined w0"
      "prefersDark w0 = prefersDark b"
    using wd by (simp_all add: w0_def applyThemeEffect_eq [OF ww]) (simp_all add: w_def 1 2)
  have c: "consistent w0"
    unfolding w0_def applyThemeEffect_eq [OF ww] snd_conv by (rule consistent_effect)
  show ?thesis
    using m f c unfolding th_def rd_def by blast
qed

lemma mount_valid:
  "windowDefined b \<Longrightarrow> mount p b = Inr w0 \<Longrightarrow> valid_prefs w0"
  using mount_ok [of b p] theme_str_valid [of "defaultTheme p"]
    radius_str_valid [of "defaultRadius p"]
  by (auto simp add: valid_prefs_def split: option.splits)

text \<open>Outside a page the first effect throws and nothing is mounted.\<close>

lemma mount_without_window:
  assumes "\<not> windowDefined b"
  shows "mount p b = Inl (ReferenceError ''window is not defined'')"
proof -
  obtain th b1 where 1: "initialTheme p b = (Inr th, b1)" "windowDefined b1 = windowDefined b"
    using initialTheme_eq [of p b] by blast
  obtain rd b2 where 2: "initialRadius p b1 = (Inr rd, b2)" "windowDefined b2 = windowDefined b1"
    using initialRadius_eq [of p b1] by blast
  show ?thesis
    using assms
    by (simp add: mount_def bind_def ret_def 1 2 runEffects_without_window)
qed

lemma safe_get_fst: "fst (safeLocalStorage_getItem k b) = Inr (stored b k)"
  by (simp add: safe_get_eq stored_def split: option.splits)

lemma step_SetTheme_fields:
  assumes "windowDefined w"
  shows "fst (step p (SetTheme t) w) = Inr ()"
    "theme (snd (step p (SetTheme t) w)) = theme_str t"
    "prefersDark (snd (step p (SetTheme t) w)) = prefersDark w"
  using assms by (simp_all add: step_def seq_commit setTheme_fields commit_fields)

lemma run_single: "fst (step p ev w) = Inr () \<Longrightarrow> run p [ev] w = (Inr (), snd (step p ev w))"
  by (cases "step p ev w") (simp add: seq_def bind_def ret_def)

text \<open>
  C2. Mount the provider in a browser (\<open>window\<close> defined) and let any sequence of events
  happen. Nothing throws, the mode is one of the three, the resolved theme is \<open>dark\<close> or
  \<open>light\<close>, and it agrees with the mode: \<open>dark\<close> for mode \<open>dark\<close>, \<open>light\<close> for mode
  \<open>light\<close>, and the current OS colour scheme for mode \<open>system\<close>. The states are those
  in which React has run the effects of the last render.
\<close>

theorem resolvedTheme_consistent:
  assumes "windowDefined b"
  shows "\<exists>w0 w. mount p b = Inr w0 \<and> run p evs w0 = (Inr (), w)
     \<and> theme w \<in> set [''light'', ''dark'', ''system'']
     \<and> resolvedTheme w \<in> set [''dark'', ''light'']
     \<and> (theme w = ''dark'' \<longrightarrow> resolvedTheme w = ''dark'')
     \<and> (theme w = ''light'' \<longrightarrow> resolvedTheme w = ''light'')
     \<and> (theme w = ''system'' \<longrightarrow> resolvedTheme w = (if prefersDark w then ''dark'' else ''light''))"
proof -
  obtain w0 where m: "mount p b = Inr w0" "windowDefined w0" "consistent w0"
    using mount_ok [OF assms, of p] by blast
  have v0: "valid_prefs w0" using assms m(1) by (rule mount_valid)
  obtain w where r: "run p evs w0 = (Inr (), w)" "windowDefined w"
      "valid_prefs w" "consistent w"
    using run_ok [OF m(2), of p evs] v0 m(3) by blast
  have wd: "windowDefined w" by (rule r(2))
  have c: "resolvedTheme w = resolve (theme w) w" using r(4) by (simp add: consistent_def)
  have "theme w \<in> set [''light'', ''dark'', ''system'']" using r(3) by (simp add: valid_prefs_def)
  moreover have "resolvedTheme w \<in> set [''dark'', ''light'']"
    using resolve_cases [of "theme w" w] c by auto
  moreover have "theme w = ''dark'' \<longrightarrow> resolvedTheme w = ''dark''"
    by (simp add: c resolve_def)
  moreover have "theme w = ''light'' \<longrightarrow> resolvedTheme w = ''light''"
    by (simp add: c resolve_def)
  moreover have "theme w = ''system'' \<longrightarrow> resolvedTheme w = (if prefersDark w then ''dark'' else ''light'')"
    using wd by (simp add: c resolve_def getSystemTheme_def)
  ultimately show ?thesis using m(1) r(1) by blast
qed

theorem resolvedTheme_consistent_witness:
  "windowDefined dark_browser
   \<and> (\<exists>w0 w. mount default_props dark_browser = Inr w0
         \<and> run default_props [SetTheme Dark] w0 = (Inr (), w)
         \<and> theme w = ''dark'' \<and> resolvedTheme w = ''dark'')
   \<and> (\<exists>w0 w. mount default_props dark_browser = Inr w0
         \<and> run default_props [SetTheme Light] w0 = (Inr (), w)
         \<and> theme w = ''light'' \<and> resolvedTheme w = ''light'')
   \<and> (\<exists>w0 w. mount default_props dark_browser = Inr w0
         \<and> run default_props [SetTheme System] w0 = (Inr (), w)
         \<and> theme w = ''system'' \<and> prefersDark w \<and> resolvedTheme w = ''dark'')"
proof -
  have wd: "windowDefined dark_browser" by (simp add: dark_browser_def)
  have *: "\<exists>w0 w. mount default_props dark_browser = Inr w0
         \<and> run default_props [SetTheme t] w0 = (Inr (), w)
         \<and> theme w = theme_str t \<and> prefersDark w
         \<and> (theme w = ''dark'' \<longrightarrow> resolvedTheme w = ''dark'')
         \<and> (theme w = ''light'' \<longrightarrow> resolvedTheme w = ''light'')
         \<and> (theme w = ''system'' \<longrightarrow> resolvedTheme w = (if prefersDark w then ''dark'' else ''light''))" for t
  proof -
    obtain w0 w where a: "mount default_props dark_browser = Inr w0"
       "run default_props [SetTheme t] w0 = (Inr (), w)"
       "theme w = ''dark'' \<longrightarrow> resolvedTheme w = ''dark''"
       "theme w = ''light'' \<longrightarrow> resolvedTheme w = ''light''"
       "theme w = ''system'' \<longrightarrow> resolvedTheme w = (if prefersDark w then ''dark'' else ''light'')"
      using resolvedTheme_consistent [OF wd, of default_props "[SetTheme t]"] by blast
    have p0: "prefersDark w0" "windowDefined w0"
      using mount_ok [OF wd, of default_props] a(1) by (auto simp add: dark_browser_def)
    have "w = snd (step default_props (SetTheme t) w0)"
      using a(2) run_single [of default_props "SetTheme t" w0]
      by (simp add: step_SetTheme_fields [OF p0(2)])
    then have "theme w = theme_str t" "prefersDark w"
      using p0(1) by (simp_all add: step_SetTheme_fields [OF p0(2)])
    then show ?thesis using a by blast
  qed
  have D: "\<exists>w0 w. mount default_props dark_browser = Inr w0
         \<and> run default_props [SetTheme Dark] w0 = (Inr (), w)
         \<and> theme w = ''dark'' \<and> resolvedTheme w = ''dark''"
  proof -
    obtain w0 w where a: "mount default_props dark_browser = Inr w0"
       "run default_props [SetTheme Dark] w0 = (Inr (), w)" "theme w = theme_str Dark"
       "theme w = ''dark'' \<longrightarrow> resolvedTheme w = ''dark''"
      using * [of Dark] by blast
    have "theme w = ''dark''" using a(3) by simp
    then show ?thesis using a by blast
  qed
  have L: "\<exists>w0 w. mount default_props dark_browser = Inr w0
         \<and> run default_props [SetTheme Light] w0 = (Inr (), w)
         \<and> theme w = ''light'' \<and> resolvedTheme w = ''light''"
  proof -
    obtain w0 w where a: "mount default_props dark_browser = Inr w0"
       "run default_props [SetTheme Light] w0 = (Inr (), w)" "theme w = theme_str Light"
       "theme w = ''light'' \<longrightarrow> resolvedTheme w = ''light''"
      using * [of Light] by blast
    have "theme w = ''light''" using a(3) by simp
    then show ?thesis using a by blast
  qed
  have S: "\<exists>w0 w. mount default_props dark_browser = Inr w0
         \<and> run default_props [SetTheme System] w0 = (Inr (), w)
         \<and> theme w = ''system'' \<and> prefersDark w \<and> resolvedTheme w = ''dark''"
  proof -
    obtain w0 w where a: "mount default_props dark_browser = Inr w0"
       "run default_props [SetTheme System] w0 = (Inr (), w)" "theme w = theme_str System"
       "prefersDark w"
       "theme w = ''system'' \<longrightarrow> resolvedTheme w = (if prefersDark w then ''dark'' else ''light'')"
      using * [of System] by blast
    have t: "theme w = ''system''" using a(3) by simp
    then have "resolvedTheme w = ''dark''" using a(4,5) by simp
    then show ?thesis using a(1,2,4) t by blast
  qed
  show ?thesis using wd D L S by (intro conjI)
qed

text \<open>
  The two fields the provider holds. In a page, after mounting and after any sequence of
  events, the theme and the radius hold one of their enumerated values; at mount, a value
  read from storage that is outside the enumerated set of its field is replaced by the
  default of the props.
\<close>

lemma theme_and_radius_enumerated:
  assumes wd: "windowDefined b"
  shows "\<exists>w0 w. mount p b = Inr w0 \<and> run p evs w0 = (Inr (), w)
     \<and> (\<forall>v. fst (safeLocalStorage_getItem (storageKey p) b) = Inr (Some v)
            \<and> v \<notin> set [''light'', ''dark'', ''system'']
          \<longrightarrow> theme w0 = theme_str (defaultTheme p))
     \<and> (\<forall>v. fst (safeLocalStorage_getItem (radiusStorageKey p) b) = Inr (Some v)
            \<and> v \<notin> set [''0'', ''0.3rem'', ''0.5rem'', ''0.75rem'']
          \<longrightarrow> radius w0 = radius_str (defaultRadius p))
     \<and> valid_prefs w0 \<and> valid_prefs w"
proof -
  obtain w0 where m: "mount p b = Inr w0"
     "theme w0 = (case stored b (storageKey p) of
            None \<Rightarrow> theme_str (defaultTheme p)
          | Some s \<Rightarrow> if s \<in> set [''light'', ''dark'', ''system'']
                      then s else theme_str (defaultTheme p))"
     "radius w0 = (case stored b (radiusStorageKey p) of
            None \<Rightarrow> radius_str (defaultRadius p)
          | Some s \<Rightarrow> if s \<in> set [''0'', ''0.3rem'', ''0.5rem'', ''0.75rem'']
                      then s else radius_str (defaultRadius p))"
     "windowDefined w0"
    using mount_ok [OF wd, of p] by blast
  have v0: "valid_prefs w0" using wd m(1) by (rule mount_valid)
  obtain w where r: "run p evs w0 = (Inr (), w)" "valid_prefs w"
    using run_ok [OF m(4), of p evs] v0 by blast
  have t: "\<forall>v. fst (safeLocalStorage_getItem (storageKey p) b) = Inr (Some v)
            \<and> v \<notin> set [''light'', ''dark'', ''system'']
          \<longrightarrow> theme w0 = theme_str (defaultTheme p)"
    unfolding safe_get_fst m(2) by auto
  have d: "\<forall>v. fst (safeLocalStorage_getItem (radiusStorageKey p) b) = Inr (Some v)
            \<and> v \<notin> set [''0'', ''0.3rem'', ''0.5rem'', ''0.75rem'']
          \<longrightarrow> radius w0 = radius_str (defaultRadius p)"
    unfolding safe_get_fst m(3) by auto
  show ?thesis using m(1) r v0 t d by blast
qed

lemma mount_junk_browser: "mount default_props junk_browser = Inr mounted_junk"
  by (simp add: mount_def bind_def ret_def initialTheme_def initialRadius_def safe_get_eq
      runEffects_eq applyThemeEffect_eq resolve_def getSystemTheme_def
      default_props_def junk_browser_def mounted_junk_def no_faults_def)

text \<open>
  C6. A page whose storage holds a value outside the enumerated set under each of the three
  keys. Mounting replaces the stored theme and radius by the defaults, but the stored colour
  theme is never read and no colour theme is kept: the mounted provider offers neither
  \<open>colorTheme\<close> nor \<open>setColorTheme\<close>, so the panel reads \<open>undefined\<close> for that field
  of the preference set, which is none of the eight palettes.
\<close>

theorem colorTheme_not_held:
  "mount default_props junk_browser = Inr mounted_junk
   \<and> ls_items junk_browser ''color-theme'' = Some ''neon''
   \<and> theme mounted_junk = ''system''
   \<and> radius mounted_junk = ''0.5rem''
   \<and> useTheme mounted_junk ''colorTheme'' = None
   \<and> useTheme mounted_junk ''setColorTheme'' = None"
  by (simp add: mount_junk_browser)
    (simp add: junk_browser_def mounted_junk_def useTheme_def context_value_def)

section \<open>The reset control of the panel\<close>

lemma reset_toasts: "toasts (snd (resetToDefaults p s)) = toasts s"
  "isResetting (snd (resetToDefaults p s)) = isResetting s"
  by (simp_all add: reset_eq safe_remove_eq split: option.splits)

text \<open>
  C9. \<open>resetToDefaults\<close> never throws, so the panel's reset handler returns normally
  having raised exactly one notification, the success one, with \<open>isResetting\<close> back to
  false: the \<open>catch\<close> branch with the error notification is never taken.
\<close>

theorem reset_handler_always_succeeds:
  "fst (resetToDefaults p s) = Inr ()
   \<and> fst (handleResetToDefaults p s) = Inr ()
   \<and> toasts (snd (handleResetToDefaults p s)) = toasts s @ [ToastSuccess ''theme.resetSuccess'']
   \<and> isResetting (snd (handleResetToDefaults p s)) = False"
proof -
  have u: "useTheme s ''resetToDefaults'' = Some (Fn ResetToDefaultsFn)"
    by (simp add: useTheme_def context_value_def)
  define s1 where "s1 = s\<lparr>isResetting := True\<rparr>"
  define s2 where "s2 = snd (resetToDefaults p s1)"
  have r: "resetToDefaults p s1 = (Inr (), s2)"
    using reset_ret [of p s1] by (cases "resetToDefaults p s1") (simp add: s2_def)
  have t: "toasts s2 = toasts s"
    by (simp add: s2_def reset_toasts s1_def)
  have h: "handleResetToDefaults p s =
      (Inr (), s2\<lparr>toasts := toasts s2 @ [ToastSuccess ''theme.resetSuccess''], isResetting := False\<rparr>)"
    by (simp add: handleResetToDefaults_def u call_def js_defs setIsResetting_def
        s1_def [symmetric] r toast_success_def)
  show ?thesis by (simp add: h t reset_ret)
qed

end
